theory Spec2Isabelle
  imports Complex_Main
begin

section \<open>Distributed KMeans orchestration (cuml.dask.cluster.kmeans)\<close>

text \<open>
  A shallow embedding of the class \<open>KMeans\<close> of
  \<open>python/cuml/dask/cluster/kmeans.py\<close>: \<open>_func_fit\<close>, \<open>fit\<close>, \<open>fit_predict\<close> and
  \<open>predict\<close>. The estimator object \<open>self\<close> and the
  Dask cluster (communicator sessions, futures) are explicit state; every call the
  orchestrator makes to a collaborator is appended to a trace. Exceptions are values.
  Feature values and weights are carried from the input to the engine and never computed
  with here. \<open>score\<close> and \<open>_score\<close> are left out: their result is a floating-point
  reduction (\<open>cupy.sum\<close>) of scores computed by the single-GPU engine.
\<close>

subsection \<open>Data\<close>

type_synonym worker = string
type_synonym sid = string
type_synonym row = "real list"
type_synonym block = "row list"
type_synonym wblock = "real list"

datatype dtype = Cudf | Cupy

datatype hval = IntV int | RealV real | StrV string

type_synonym hyperparams = "(string \<times> hval) list"

text \<open>A Dask collection: its layout and its partitions, each resident on a worker.\<close>

record 'a dask_collection =
  kind :: dtype
  partitions :: "(worker \<times> 'a) list"

text \<open>
  What a worker holds for one fit: its feature blocks alone, or (when the input was the
  tuple \<open>(X, sample_weight)\<close>) its pairs of a feature block and a weight block.
\<close>

datatype parts = Xs "block list" | XWs "(block \<times> wblock) list"

datatype exn =
    ShardAlignmentError
  | CommsInitError
  | WorkerError string
  | DistributedFitError "exn list"
  | IndexError
  | AttributeError
  | TypeError

datatype kmeans_model = Model (model_centers: "row list")

datatype handle = Handle worker sid

text \<open>The arguments of one \<open>client.submit(KMeans._func_fit, ..., workers=[w], pure=False)\<close>.\<close>

record task =
  target :: worker
  sessionId :: sid
  objs :: parts
  out_type :: dtype
  has_weights :: bool
  hyper :: hyperparams

datatype status = Pending | Finished kmeans_model | Erred exn

datatype event =
    CommsInit sid "worker list"
  | Submit nat task
  | Wait "nat list"
  | Settled nat
  | InspectException nat
  | CommsDestroy sid
  | InspectResult nat

text \<open>
  The cluster: the communicator sessions that are open, the futures (a future's key is
  its index in \<open>tasks\<close>), and the trace of calls received so far.
\<close>

record cluster =
  sessions :: "(sid \<times> worker list) list"
  tasks :: "task list"
  status :: "nat \<Rightarrow> status"
  trace :: "event list"

text \<open>The estimator \<open>self\<close>: \<open>kwargs\<close>, \<open>verbose\<close> and the attributes \<open>fit\<close> assigns.\<close>

record estimator =
  kwargs :: hyperparams
  verbose :: bool
  datatype_attr :: "dtype option"
  local_model :: "kmeans_model option"
  cluster_centers_attr :: "row list option"

text \<open>
  The collaborators whose code is outside this file are parameters: the per-worker state
  \<open>worker_state(sessionId)["handle"]\<close>, the multi-GPU engine
  \<open>KMeansMG(handle, output_type, **kwargs).fit(data, sample_weight)\<close>, the single-GPU
  \<open>model.predict(data)\<close>, and whether \<open>CommsContext.init\<close> raises.
\<close>

record env =
  worker_state :: "worker \<Rightarrow> sid \<Rightarrow> handle"
  KMeansMG_fit :: "handle \<Rightarrow> dtype \<Rightarrow> hyperparams \<Rightarrow> block \<Rightarrow> wblock option \<Rightarrow> exn + kmeans_model"
  model_predict :: "kmeans_model \<Rightarrow> block \<Rightarrow> nat list"
  comms_init_error :: "sid \<Rightarrow> worker list \<Rightarrow> exn option"

datatype 'a outcome = Returned 'a | Raised exn | Blocked

subsection \<open>DistributedDataHandler.create\<close>

definition owners :: "worker list \<Rightarrow> worker list" where
  "owners ws = rev (remdups (rev ws))"

definition shards_on :: "worker \<Rightarrow> (worker \<times> 'a) list \<Rightarrow> 'a list" where
  "shards_on w ps = map snd (filter (\<lambda>p. fst p = w) ps)"

definition aligned_on :: "(worker \<times> block) list \<Rightarrow> (worker \<times> wblock) list \<Rightarrow> worker \<Rightarrow> bool" where
  "aligned_on xs ws w =
     list_all2 (\<lambda>x wt. length x = length wt) (shards_on w xs) (shards_on w ws)"

definition aligned :: "(worker \<times> block) list \<Rightarrow> (worker \<times> wblock) list \<Rightarrow> bool" where
  "aligned xs ws = list_all (aligned_on xs ws) (owners (map fst xs @ map fst ws))"

record handler =
  workers :: "worker list"
  worker_to_parts :: "(worker \<times> parts) list"
  datatype_of :: dtype
  multiple :: bool

text \<open>
  Modelled from the spec: \<open>DistributedDataHandler.create\<close> (module
  \<open>cuml.dask.common.input_utils\<close>) is not part of the source at hand. Following the
  Partition Assigner of the spec, shards are grouped by the worker they are resident on,
  in order, without moving them; only workers that hold a shard appear; and when weights
  are supplied, each worker's weight shards must pair one-to-one and row-count-exact with
  its feature shards, otherwise \<open>ShardAlignmentError\<close>. The field \<open>multiple\<close> is read
  the way \<open>fit\<close> uses it: it is passed to \<open>_func_fit\<close> as \<open>has_weights\<close>, under
  which every object is unpacked as a pair \<open>(X, weights)\<close>, so it says whether the input
  was the tuple \<open>(X, sample_weight)\<close>.
\<close>

definition create :: "block dask_collection \<Rightarrow> wblock dask_collection option \<Rightarrow> exn + handler" where
  "create X sample_weight =
     (case sample_weight of
        None \<Rightarrow>
          Inr \<lparr>workers = owners (map fst (partitions X)),
               worker_to_parts =
                 map (\<lambda>w. (w, Xs (shards_on w (partitions X)))) (owners (map fst (partitions X))),
               datatype_of = kind X,
               multiple = False\<rparr>
      | Some W \<Rightarrow>
          if aligned (partitions X) (partitions W) then
            Inr \<lparr>workers = owners (map fst (partitions X)),
                 worker_to_parts =
                   map (\<lambda>w. (w, XWs (zip (shards_on w (partitions X)) (shards_on w (partitions W)))))
                       (owners (map fst (partitions X))),
                 datatype_of = kind X,
                 multiple = True\<rparr>
          else Inl ShardAlignmentError)"

subsection \<open>The task run on each worker\<close>

text \<open>
  Modelled from the spec: \<open>concatenate\<close> (module \<open>cuml.dask.common.input_utils\<close>) joins
  the blocks of one worker into one block, rows in order.
\<close>

definition concatenate :: "'a list list \<Rightarrow> 'a list" where
  "concatenate bs = concat bs"

text \<open>
  \<open>_func_fit(sessionId, objs, datatype, has_weights, **kwargs)\<close>, run on worker \<open>w\<close>.
  With \<open>has_weights\<close> unset the objects are concatenated as they are; with it set each
  object is unpacked as a pair. Objects of the other shape make the task fail.
\<close>

definition func_fit :: "env \<Rightarrow> worker \<Rightarrow> sid \<Rightarrow> parts \<Rightarrow> dtype \<Rightarrow> bool \<Rightarrow> hyperparams \<Rightarrow> exn + kmeans_model" where
  "func_fit E w sessId obs dt has_w kw =
     (let h = worker_state E w sessId in
      if \<not> has_w then
        (case obs of
           Xs bs \<Rightarrow> KMeansMG_fit E h dt kw (concatenate bs) None
         | XWs ps \<Rightarrow> Inl TypeError)
      else
        (case obs of
           XWs ps \<Rightarrow> KMeansMG_fit E h dt kw (concatenate (map fst ps)) (Some (concatenate (map snd ps)))
         | Xs bs \<Rightarrow> Inl TypeError))"

subsection \<open>The communicator and the scheduler\<close>

text \<open>
  \<open>CommsContext.init(workers)\<close> and \<open>CommsContext.destroy()\<close>: a session is enrolled
  over the given workers, and removed again.
\<close>

definition comms_init :: "env \<Rightarrow> cluster \<Rightarrow> sid \<Rightarrow> worker list \<Rightarrow> exn + cluster" where
  "comms_init E cl s ws =
     (case comms_init_error E s ws of
        Some e \<Rightarrow> Inl e
      | None \<Rightarrow> Inr (cl\<lparr>sessions := sessions cl @ [(s, ws)],
                        trace := trace cl @ [CommsInit s ws]\<rparr>))"

definition comms_destroy :: "cluster \<Rightarrow> sid \<Rightarrow> cluster" where
  "comms_destroy cl s =
     cl\<lparr>sessions := filter (\<lambda>p. fst p \<noteq> s) (sessions cl),
        trace := trace cl @ [CommsDestroy s]\<rparr>"

text \<open>\<open>client.submit\<close>: the task is queued, its future (the key) is returned at once.\<close>

definition submit :: "cluster \<Rightarrow> task \<Rightarrow> nat \<times> cluster" where
  "submit cl t =
     (length (tasks cl),
      cl\<lparr>tasks := tasks cl @ [t],
         status := (status cl)(length (tasks cl) := Pending),
         trace := trace cl @ [Submit (length (tasks cl)) t]\<rparr>)"

fun submit_all :: "cluster \<Rightarrow> task list \<Rightarrow> nat list \<times> cluster" where
  "submit_all cl [] = ([], cl)"
| "submit_all cl (t # ts) =
     (let (k, cl1) = submit cl t; (ks, cl2) = submit_all cl1 ts in (k # ks, cl2))"

definition run_task :: "env \<Rightarrow> task \<Rightarrow> status" where
  "run_task E t =
     (case func_fit E (target t) (sessionId t) (objs t) (out_type t) (has_weights t) (hyper t) of
        Inl e \<Rightarrow> Erred e
      | Inr m \<Rightarrow> Finished m)"

text \<open>A pending future settles: its task has run on the worker it is pinned to.\<close>

definition settle :: "env \<Rightarrow> nat \<Rightarrow> cluster \<Rightarrow> cluster" where
  "settle E k cl =
     (if k < length (tasks cl) \<and> status cl k = Pending then
        cl\<lparr>status := (status cl)(k := run_task E (tasks cl ! k)),
           trace := trace cl @ [Settled k]\<rparr>
      else cl)"

text \<open>
  \<open>dask.distributed.wait(futures)\<close>: futures settle in the order \<open>arrival\<close>; the call
  returns (second component \<open>True\<close>) only once every future it was given has settled.
\<close>

definition wait :: "env \<Rightarrow> nat list \<Rightarrow> cluster \<Rightarrow> nat list \<Rightarrow> cluster \<times> bool" where
  "wait E arrival cl ks =
     (let cl1 = fold (settle E) arrival (cl\<lparr>trace := trace cl @ [Wait ks]\<rparr>)
      in (cl1, list_all (\<lambda>k. status cl1 k \<noteq> Pending) ks))"

definition exception_of :: "cluster \<Rightarrow> nat \<Rightarrow> exn option" where
  "exception_of cl k = (case status cl k of Erred e \<Rightarrow> Some e | _ \<Rightarrow> None)"

text \<open>
  Modelled from the spec: \<open>raise_exception_from_futures\<close> (module
  \<open>cuml.dask.common.utils\<close>) is not part of the source at hand. Following the failure
  policy of the Task Dispatcher, it inspects every future, collects all failures, and
  when there is at least one raises a single \<open>DistributedFitError\<close> wrapping them.
\<close>

definition raise_exception_from_futures :: "cluster \<Rightarrow> nat list \<Rightarrow> cluster \<times> exn option" where
  "raise_exception_from_futures cl ks =
     (let errs = List.map_filter (exception_of cl) ks;
          cl1 = cl\<lparr>trace := trace cl @ map InspectException ks\<rparr>
      in (cl1, if errs = [] then None else Some (DistributedFitError errs)))"

text \<open>\<open>future.result()\<close>: the value of the future, or its exception re-raised.\<close>

definition result :: "cluster \<Rightarrow> nat \<Rightarrow> cluster \<times> kmeans_model outcome" where
  "result cl k =
     (cl\<lparr>trace := trace cl @ [InspectResult k]\<rparr>,
      case status cl k of
        Finished m \<Rightarrow> Returned m
      | Erred e \<Rightarrow> Raised e
      | Pending \<Rightarrow> Blocked)"

subsection \<open>fit\<close>

definition fit_tasks :: "estimator \<Rightarrow> sid \<Rightarrow> handler \<Rightarrow> task list" where
  "fit_tasks self s data =
     map (\<lambda>wf. \<lparr>target = fst wf, sessionId = s, objs = snd wf,
                out_type = datatype_of data, has_weights = multiple data,
                hyper = kwargs self\<rparr>)
         (worker_to_parts data)"

text \<open>
  \<open>fit(self, X, sample_weight=None)\<close>. \<open>s\<close> is the identifier the new \<open>CommsContext\<close>
  draws; \<open>arrival\<close> is the order in which the scheduler settles futures during \<open>wait\<close>.
  The result is the estimator, the cluster and how the call ended; on success the call
  returns \<open>self\<close>, the first component. The client and the \<open>verbose\<close> flag handed to
  \<open>CommsContext\<close> do not influence the orchestration and are left out.
\<close>

definition fit :: "env \<Rightarrow> sid \<Rightarrow> nat list \<Rightarrow> estimator \<Rightarrow> cluster \<Rightarrow> block dask_collection
    \<Rightarrow> wblock dask_collection option \<Rightarrow> estimator \<times> cluster \<times> unit outcome" where
  "fit E s arrival self cl X sample_weight =
     (case create X sample_weight of
        Inl e \<Rightarrow> (self, cl, Raised e)
      | Inr data \<Rightarrow>
          let self1 = self\<lparr>datatype_attr := Some (datatype_of data)\<rparr> in
          (case comms_init E cl s (workers data) of
             Inl e \<Rightarrow> (self1, cl, Raised e)
           | Inr cl1 \<Rightarrow>
               let (kmeans_fit, cl2) = submit_all cl1 (fit_tasks self1 s data);
                   (cl3, done) = wait E arrival cl2 kmeans_fit
               in if \<not> done then (self1, cl3, Blocked)
                  else
                    (case raise_exception_from_futures cl3 kmeans_fit of
                       (cl4, Some e) \<Rightarrow> (self1, cl4, Raised e)
                     | (cl4, None) \<Rightarrow>
                         let cl5 = comms_destroy cl4 s in
                         (case kmeans_fit of
                            [] \<Rightarrow> (self1, cl5, Raised IndexError)
                          | k # _ \<Rightarrow>
                              (case result cl5 k of
                                 (cl6, Returned m) \<Rightarrow>
                                   (self1\<lparr>local_model := Some m,
                                          cluster_centers_attr := Some (model_centers m)\<rparr>,
                                    cl6, Returned ())
                               | (cl6, Raised e) \<Rightarrow> (self1, cl6, Raised e)
                               | (cl6, Blocked) \<Rightarrow> (self1, cl6, Blocked))))))"

subsection \<open>predict and fit_predict\<close>

text \<open>
  Modelled from the spec: \<open>_run_parallel_func\<close> and \<open>_predict\<close> (the mixins of
  \<open>cuml.dask.common.base\<close>) are not part of the source at hand. Following the Parallel
  Inference Runner of the spec, one job per shard applies the function to the fitted
  model and that shard, and the results come back in shard order; an estimator that was
  never fitted has no \<open>local_model\<close> attribute.
\<close>

definition run_parallel_func :: "(kmeans_model \<Rightarrow> block \<Rightarrow> 'a) \<Rightarrow> estimator
    \<Rightarrow> block dask_collection \<Rightarrow> exn + 'a list" where
  "run_parallel_func f self X =
     (case local_model self of
        None \<Rightarrow> Inl AttributeError
      | Some m \<Rightarrow> Inr (map (\<lambda>p. f m (snd p)) (partitions X)))"

datatype 'a scheduled = Lazy 'a | Computed 'a

text \<open>\<open>predict(self, X, delayed=True)\<close>, that is \<open>self._predict(X, delayed=delayed)\<close>.\<close>

definition predict :: "env \<Rightarrow> estimator \<Rightarrow> block dask_collection \<Rightarrow> bool
    \<Rightarrow> exn + (nat list dask_collection) scheduled" where
  "predict E self X delayed =
     (case run_parallel_func (model_predict E) self X of
        Inl e \<Rightarrow> Inl e
      | Inr labels \<Rightarrow>
          Inr ((if delayed then Lazy else Computed)
                 \<lparr>kind = kind X, partitions = zip (map fst (partitions X)) labels\<rparr>))"

text \<open>
  \<open>fit_predict(self, X, sample_weight=None, delayed=True)\<close>, whose body is
  \<open>return self.fit(X).predict(X, delayed=delayed)\<close>.
\<close>

definition fit_predict :: "env \<Rightarrow> sid \<Rightarrow> nat list \<Rightarrow> estimator \<Rightarrow> cluster
    \<Rightarrow> block dask_collection \<Rightarrow> wblock dask_collection option \<Rightarrow> bool
    \<Rightarrow> estimator \<times> cluster \<times> (nat list dask_collection) scheduled outcome" where
  "fit_predict E s arrival self cl X sample_weight delayed =
     (case fit E s arrival self cl X None of
        (self1, cl1, Returned u) \<Rightarrow>
          (self1, cl1,
           case predict E self1 X delayed of Inl e \<Rightarrow> Raised e | Inr p \<Rightarrow> Returned p)
      | (self1, cl1, Raised e) \<Rightarrow> (self1, cl1, Raised e)
      | (self1, cl1, Blocked) \<Rightarrow> (self1, cl1, Blocked))"

subsection \<open>Notions used to state the properties\<close>

text \<open>The per-worker causes of failure of a fit round, in assignment order.\<close>

definition cause_of :: "env \<Rightarrow> task \<Rightarrow> exn option" where
  "cause_of E t = (case run_task E t of Erred e \<Rightarrow> Some e | _ \<Rightarrow> None)"

definition failures :: "env \<Rightarrow> estimator \<Rightarrow> sid \<Rightarrow> handler \<Rightarrow> exn list" where
  "failures E self s data = List.map_filter (cause_of E) (fit_tasks self s data)"

text \<open>The feature blocks and the weight blocks among the objects given to a task.\<close>

fun feature_blocks :: "parts \<Rightarrow> block list" where
  "feature_blocks (Xs bs) = bs"
| "feature_blocks (XWs ps) = map fst ps"

fun weight_blocks :: "parts \<Rightarrow> wblock list" where
  "weight_blocks (Xs bs) = []"
| "weight_blocks (XWs ps) = map snd ps"

text \<open>The part of the trace a call appended.\<close>

definition appended :: "cluster \<Rightarrow> cluster \<Rightarrow> event list" where
  "appended cl cl1 = drop (length (trace cl)) (trace cl1)"

fun is_inspection :: "event \<Rightarrow> bool" where
  "is_inspection (InspectException k) = True"
| "is_inspection (InspectResult k) = True"
| "is_inspection e = False"

fun is_submit :: "event \<Rightarrow> bool" where
  "is_submit (Submit k t) = True"
| "is_submit e = False"

text \<open>
  The stages of a fit round that got past \<open>create\<close> and \<open>comms.init\<close>: the cluster
  once the session is open, once every task is submitted, once \<open>wait\<close> has let the
  futures settle, and once \<open>raise_exception_from_futures\<close> has inspected them.
\<close>

definition opened :: "cluster \<Rightarrow> sid \<Rightarrow> worker list \<Rightarrow> cluster" where
  "opened cl s ws =
     cl\<lparr>sessions := sessions cl @ [(s, ws)], trace := trace cl @ [CommsInit s ws]\<rparr>"

definition keys_of :: "cluster \<Rightarrow> task list \<Rightarrow> nat list" where
  "keys_of cl ts = [length (tasks cl)..<length (tasks cl) + length ts]"

definition fanned_out :: "cluster \<Rightarrow> sid \<Rightarrow> worker list \<Rightarrow> task list \<Rightarrow> cluster" where
  "fanned_out cl s ws ts = snd (submit_all (opened cl s ws) ts)"

definition at_barrier :: "env \<Rightarrow> nat list \<Rightarrow> cluster \<Rightarrow> sid \<Rightarrow> worker list \<Rightarrow> task list \<Rightarrow> cluster" where
  "at_barrier E arrival cl s ws ts =
     fold (settle E) arrival
       ((fanned_out cl s ws ts)\<lparr>trace := trace (fanned_out cl s ws ts) @ [Wait (keys_of cl ts)]\<rparr>)"

definition inspected :: "env \<Rightarrow> nat list \<Rightarrow> cluster \<Rightarrow> sid \<Rightarrow> worker list \<Rightarrow> task list \<Rightarrow> cluster" where
  "inspected E arrival cl s ws ts =
     (at_barrier E arrival cl s ws ts)
       \<lparr>trace := trace (at_barrier E arrival cl s ws ts) @ map InspectException (keys_of cl ts)\<rparr>"

subsection \<open>A small cluster to run the definitions on\<close>

text \<open>
  An engine that fails on the listed workers and otherwise returns one centroid at the
  origin; labels are all zero.
\<close>

definition engine_failing_on :: "worker list \<Rightarrow> env" where
  "engine_failing_on bad =
     \<lparr>worker_state = Handle,
      KMeansMG_fit = (\<lambda>h dt kw data wts.
         case h of Handle w s \<Rightarrow>
           if w \<in> set bad then Inl (WorkerError w) else Inr (Model [[0, 0]])),
      model_predict = (\<lambda>m b. map (\<lambda>r. 0) b),
      comms_init_error = (\<lambda>s ws. None)\<rparr>"

definition cl0 :: cluster where
  "cl0 = \<lparr>sessions = [], tasks = [], status = (\<lambda>k. Pending), trace = []\<rparr>"

definition self0 :: estimator where
  "self0 = \<lparr>kwargs = [(''n_clusters'', IntV 1)], verbose = False, datatype_attr = None,
            local_model = None, cluster_centers_attr = None\<rparr>"

definition X0 :: "block dask_collection" where
  "X0 = \<lparr>kind = Cupy,
          partitions = [(''w0'', [[0, 0], [2, 0]]), (''w1'', [[3, 4]]), (''w0'', [[1, 1]])]\<rparr>"

definition W0 :: "wblock dask_collection" where
  "W0 = \<lparr>kind = Cupy, partitions = [(''w0'', [1, 1]), (''w1'', [5]), (''w0'', [2])]\<rparr>"

definition W1 :: "wblock dask_collection" where
  "W1 = \<lparr>kind = Cupy, partitions = [(''w0'', [1, 1]), (''w1'', [5, 6]), (''w0'', [2])]\<rparr>"

definition data0 :: handler where
  "data0 = \<lparr>workers = [''w0'', ''w1''],
             worker_to_parts = [(''w0'', Xs [[[0, 0], [2, 0]], [[1, 1]]]), (''w1'', Xs [[[3, 4]]])],
             datatype_of = Cupy, multiple = False\<rparr>"

definition fitted0 :: estimator where
  "fitted0 = self0\<lparr>datatype_attr := Some Cupy, local_model := Some (Model [[0, 0]]),
                   cluster_centers_attr := Some [[0, 0]]\<rparr>"

section \<open>The fit round, stage by stage\<close>

lemma submit_all_fst:
  "fst (submit_all cl ts) = [length (tasks cl)..<length (tasks cl) + length ts]"
proof (induction ts arbitrary: cl)
  case Nil
  then show ?case by simp
next
  case (Cons t ts)
  have "fst (submit_all cl (t # ts)) = length (tasks cl) # fst (submit_all (snd (submit cl t)) ts)"
    by (simp add: split_beta submit_def)
  also have "\<dots> = length (tasks cl) # [Suc (length (tasks cl))..<Suc (length (tasks cl)) + length ts]"
    by (simp add: Cons.IH submit_def)
  also have "\<dots> = [length (tasks cl)..<length (tasks cl) + length (t # ts)]"
    by (subst (2) upt_conv_Cons) simp_all
  finally show ?case .
qed

lemma submit_all_tasks: "tasks (snd (submit_all cl ts)) = tasks cl @ ts"
  by (induction ts arbitrary: cl) (simp_all add: split_beta submit_def)

lemma submit_all_sessions: "sessions (snd (submit_all cl ts)) = sessions cl"
  by (induction ts arbitrary: cl) (simp_all add: split_beta submit_def)

lemma submit_all_status:
  "status (snd (submit_all cl ts)) k =
     (if length (tasks cl) \<le> k \<and> k < length (tasks cl) + length ts then Pending else status cl k)"
  by (induction ts arbitrary: cl) (auto simp add: split_beta submit_def)

lemma submit_all_trace:
  "trace (snd (submit_all cl ts)) =
     trace cl @ map (\<lambda>p. Submit (fst p) (snd p))
                    (zip [length (tasks cl)..<length (tasks cl) + length ts] ts)"
proof (induction ts arbitrary: cl)
  case Nil
  then show ?case by simp
next
  case (Cons t ts)
  have "[length (tasks cl)..<length (tasks cl) + length (t # ts)] =
        length (tasks cl) # [Suc (length (tasks cl))..<Suc (length (tasks cl)) + length ts]"
    by (subst upt_conv_Cons) simp_all
  then show ?case
    by (simp add: split_beta Cons.IH) (simp add: submit_def)
qed

lemma run_task_settled: "run_task E t \<noteq> Pending"
  by (simp add: run_task_def split: sum.splits)

lemma fold_settle_tasks: "tasks (fold (settle E) arr cl) = tasks cl"
  by (induction arr arbitrary: cl) (simp_all add: settle_def)

lemma fold_settle_sessions: "sessions (fold (settle E) arr cl) = sessions cl"
  by (induction arr arbitrary: cl) (simp_all add: settle_def)

lemma fold_settle_status:
  "status (fold (settle E) arr cl) k =
     (if k \<in> set arr \<and> k < length (tasks cl) \<and> status cl k = Pending
      then run_task E (tasks cl ! k) else status cl k)"
proof (induction arr arbitrary: cl)
  case Nil
  then show ?case by simp
next
  case (Cons a arr)
  have t: "tasks (settle E a cl) = tasks cl"
    by (simp add: settle_def)
  have s: "\<And>j. status (settle E a cl) j =
      (if j = a \<and> j < length (tasks cl) \<and> status cl j = Pending
       then run_task E (tasks cl ! j) else status cl j)"
    by (auto simp add: settle_def)
  show ?case
    using run_task_settled [of E "tasks cl ! k"]
    by (auto simp add: Cons.IH t s)
qed

lemma fold_settle_trace:
  "\<exists>ksd. trace (fold (settle E) arr cl) = trace cl @ map Settled ksd \<and>
         set ksd = {k \<in> set arr. k < length (tasks cl) \<and> status cl k = Pending}"
proof (induction arr arbitrary: cl)
  case Nil
  then show ?case by simp
next
  case (Cons a arr)
  obtain ksd where ih:
    "trace (fold (settle E) arr (settle E a cl)) = trace (settle E a cl) @ map Settled ksd"
    "set ksd = {k \<in> set arr. k < length (tasks (settle E a cl)) \<and> status (settle E a cl) k = Pending}"
    using Cons.IH [of "settle E a cl"] by blast
  have t: "tasks (settle E a cl) = tasks cl"
    by (simp add: settle_def)
  show ?case
  proof (cases "a < length (tasks cl) \<and> status cl a = Pending")
    case True
    then have tr: "trace (settle E a cl) = trace cl @ [Settled a]"
      by (simp add: settle_def)
    have st: "\<And>k. status (settle E a cl) k = Pending \<longleftrightarrow> k \<noteq> a \<and> status cl k = Pending"
      using True run_task_settled [of E "tasks cl ! a"] by (simp add: settle_def)
    have "trace (fold (settle E) (a # arr) cl) = trace cl @ map Settled (a # ksd)"
      using ih(1) tr by simp
    moreover have "set (a # ksd) = {k \<in> set (a # arr). k < length (tasks cl) \<and> status cl k = Pending}"
      using ih(2) True by (auto simp add: t st)
    ultimately show ?thesis by blast
  next
    case False
    then have same: "settle E a cl = cl"
      by (auto simp add: settle_def)
    have "trace (fold (settle E) (a # arr) cl) = trace cl @ map Settled ksd"
      using ih(1) same by simp
    moreover have "set ksd = {k \<in> set (a # arr). k < length (tasks cl) \<and> status cl k = Pending}"
      using ih(2) False same by auto
    ultimately show ?thesis by blast
  qed
qed

lemma map_filter_shift:
  assumes "\<And>i. i < length ts \<Longrightarrow> f (n + i) = g (ts ! i)"
  shows "List.map_filter f [n..<n + length ts] = List.map_filter g ts"
proof -
  have ts: "map (\<lambda>k. ts ! (k - n)) [n..<n + length ts] = ts"
    by (rule nth_equalityI) simp_all
  have fg: "\<And>k. k \<in> set [n..<n + length ts] \<Longrightarrow> f k = g (ts ! (k - n))"
    using assms by (metis add_diff_inverse_nat atLeastLessThan_iff less_diff_conv2 not_less set_upt add.commute)
  have "List.map_filter f [n..<n + length ts] =
        List.map_filter (\<lambda>k. g (ts ! (k - n))) [n..<n + length ts]"
    unfolding List.map_filter_def
    using fg by (auto intro!: map_cong filter_cong)
  also have "\<dots> = List.map_filter g (map (\<lambda>k. ts ! (k - n)) [n..<n + length ts])"
    by (simp add: List.map_filter_def filter_map comp_def)
  finally show ?thesis
    by (simp only: ts)
qed

lemma fit_tasks_datatype_attr:
  "fit_tasks (self\<lparr>datatype_attr := d\<rparr>) s data = fit_tasks self s data"
  by (simp add: fit_tasks_def)

lemma key_offset:
  assumes "k \<in> set [n..<n + m]"
  obtains i where "k = n + i" "i < (m::nat)"
proof -
  from assms have "k = n + (k - n)" "k - n < m" by auto
  then show thesis by (rule that)
qed

lemma dispatched_status:
  assumes "i < length ts"
  shows "status (at_barrier E arrival cl s ws ts) (length (tasks cl) + i) =
     (if length (tasks cl) + i \<in> set arrival then run_task E (ts ! i) else Pending)"
  using assms
  by (simp add: at_barrier_def fanned_out_def opened_def fold_settle_status
      submit_all_status submit_all_tasks nth_append)

lemma barrier_reached_iff:
  "list_all (\<lambda>k. status (at_barrier E arrival cl s ws ts) k \<noteq> Pending) (keys_of cl ts)
     \<longleftrightarrow> set (keys_of cl ts) \<subseteq> set arrival"
proof -
  have "(status (at_barrier E arrival cl s ws ts) k \<noteq> Pending) = (k \<in> set arrival)"
    if "k \<in> set (keys_of cl ts)" for k
  proof -
    from that obtain i where i: "k = length (tasks cl) + i" "i < length ts"
      unfolding keys_of_def by (rule key_offset)
    show ?thesis
      using dispatched_status [OF i(2), of E arrival cl s ws] run_task_settled [of E "ts ! i"] i(1)
      by simp
  qed
  then show ?thesis
    by (auto simp add: list_all_iff)
qed

lemma collected_failures:
  assumes "set (keys_of cl ts) \<subseteq> set arrival"
  shows "List.map_filter (exception_of (at_barrier E arrival cl s ws ts)) (keys_of cl ts) =
         List.map_filter (cause_of E) ts"
  unfolding keys_of_def
proof (rule map_filter_shift)
  fix i assume i: "i < length ts"
  then have "length (tasks cl) + i \<in> set arrival"
    using assms by (auto simp add: keys_of_def)
  then show "exception_of (at_barrier E arrival cl s ws ts) (length (tasks cl) + i) = cause_of E (ts ! i)"
    using dispatched_status [OF i, of E arrival cl s ws]
    by (simp add: exception_of_def cause_of_def)
qed

text \<open>What a fit call does once \<open>create\<close> and \<open>comms.init\<close> have succeeded.\<close>

lemma fit_unfold:
  fixes self :: estimator and cl :: cluster and E :: env and arrival :: "nat list"
  assumes c: "create X sw = Inr data" and i: "comms_init_error E s (workers data) = None"
  defines "self1 \<equiv> self\<lparr>datatype_attr := Some (datatype_of data)\<rparr>"
  defines "ts \<equiv> fit_tasks self s data"
  defines "cl3 \<equiv> at_barrier E arrival cl s (workers data) ts"
  defines "cl5 \<equiv> comms_destroy (inspected E arrival cl s (workers data) ts) s"
  shows "fit E s arrival self cl X sw =
     (if \<not> set (keys_of cl ts) \<subseteq> set arrival then (self1, cl3, Blocked)
      else if failures E self s data \<noteq> [] then
        (self1, inspected E arrival cl s (workers data) ts,
         Raised (DistributedFitError (failures E self s data)))
      else
        (case ts of
           [] \<Rightarrow> (self1, cl5, Raised IndexError)
         | t # ts1 \<Rightarrow>
             (case run_task E t of
                Finished m \<Rightarrow>
                  (self1\<lparr>local_model := Some m, cluster_centers_attr := Some (model_centers m)\<rparr>,
                   fst (result cl5 (length (tasks cl))), Returned ())
              | Erred e \<Rightarrow> (self1, fst (result cl5 (length (tasks cl))), Raised e)
              | Pending \<Rightarrow> (self1, fst (result cl5 (length (tasks cl))), Blocked))))"
proof -
  define ks where "ks = keys_of cl ts"
  define cl2 where "cl2 = fanned_out cl s (workers data) ts"
  have sub: "submit_all (opened cl s (workers data)) (fit_tasks self1 s data) = (ks, cl2)"
    using submit_all_fst [of "opened cl s (workers data)" ts]
    by (simp add: self1_def fit_tasks_datatype_attr ts_def [symmetric] ks_def keys_of_def
        cl2_def fanned_out_def prod_eq_iff opened_def)
  have w: "wait E arrival cl2 ks = (cl3, set ks \<subseteq> set arrival)"
    using barrier_reached_iff [of E arrival cl s "workers data" ts]
    by (simp add: wait_def Let_def cl3_def at_barrier_def cl2_def ks_def)
  have ci: "comms_init E cl s (workers data) = Inr (opened cl s (workers data))"
    by (simp add: comms_init_def i opened_def)
  show ?thesis
  proof (cases "set ks \<subseteq> set arrival")
    case False
    then show ?thesis
      by (simp add: fit_def c ci sub w self1_def [symmetric] Let_def ks_def [symmetric])
  next
    case True
    have errs: "List.map_filter (exception_of cl3) ks = failures E self s data"
      using collected_failures [of cl ts arrival E s "workers data"] True
      by (simp add: ks_def failures_def ts_def cl3_def)
    have r: "raise_exception_from_futures cl3 ks =
        (inspected E arrival cl s (workers data) ts,
         if failures E self s data = [] then None
              else Some (DistributedFitError (failures E self s data)))"
      by (simp add: raise_exception_from_futures_def Let_def errs [unfolded cl3_def ks_def]
          inspected_def cl3_def ks_def)
    show ?thesis
    proof (cases "failures E self s data = []")
      case False
      then show ?thesis
        using True
        by (simp add: fit_def c ci sub w r self1_def [symmetric] Let_def ks_def [symmetric])
    next
      case noerr: True
      have f: "fit E s arrival self cl X sw =
          (case ks of
             [] \<Rightarrow> (self1, cl5, Raised IndexError)
           | k # ks1 \<Rightarrow>
               (case result cl5 k of
                  (cl6, Returned m) \<Rightarrow>
                    (self1\<lparr>local_model := Some m, cluster_centers_attr := Some (model_centers m)\<rparr>,
                     cl6, Returned ())
                | (cl6, Raised e) \<Rightarrow> (self1, cl6, Raised e)
                | (cl6, Blocked) \<Rightarrow> (self1, cl6, Blocked)))"
        using True noerr unfolding cl5_def
        by (simp add: fit_def c ci sub w r self1_def [symmetric] Let_def)
      have g: "set (keys_of cl ts) \<subseteq> set arrival"
        using True by (simp add: ks_def)
      show ?thesis
      proof (cases ts)
        case Nil
        then have "ks = []" by (simp add: ks_def keys_of_def)
        then show ?thesis
          using g noerr Nil by (simp add: f)
      next
        case (Cons t ts1)
        then have kn: "ks = length (tasks cl) # [Suc (length (tasks cl))..<length (tasks cl) + length ts]"
          unfolding ks_def keys_of_def by (subst upt_conv_Cons) simp_all
        have "length (tasks cl) \<in> set arrival"
          using True kn by simp
        then have "status cl3 (length (tasks cl)) = run_task E t"
          using dispatched_status [of 0 ts E arrival cl s "workers data"] Cons
          by (simp add: cl3_def)
        then have st: "status cl5 (length (tasks cl)) = run_task E t"
          by (simp add: comms_destroy_def cl5_def inspected_def cl3_def)
        have res: "result cl5 (length (tasks cl)) =
            (fst (result cl5 (length (tasks cl))),
             case run_task E t of Finished m \<Rightarrow> Returned m | Erred e \<Rightarrow> Raised e | Pending \<Rightarrow> Blocked)"
          by (simp add: result_def st)
        show ?thesis
          using g noerr Cons
          by (simp add: f kn) (subst res, simp split: status.splits)
      qed
    qed
  qed
qed

lemma fit_create_fails:
  assumes "create X sw = Inl e"
  shows "fit E s arrival self cl X sw = (self, cl, Raised e)"
  using assms by (simp add: fit_def)

lemma fit_comms_fails:
  assumes "create X sw = Inr data" "comms_init_error E s (workers data) = Some e"
  shows "fit E s arrival self cl X sw =
           (self\<lparr>datatype_attr := Some (datatype_of data)\<rparr>, cl, Raised e)"
  using assms by (simp add: fit_def comms_init_def)

lemma at_barrier_trace:
  "\<exists>ksd. trace (at_barrier E arrival cl s ws ts) =
           trace cl @ CommsInit s ws # map (\<lambda>p. Submit (fst p) (snd p)) (zip (keys_of cl ts) ts)
             @ Wait (keys_of cl ts) # map Settled ksd \<and>
         set (keys_of cl ts) \<inter> set arrival \<subseteq> set ksd"
proof -
  define c2 where "c2 = (fanned_out cl s ws ts)\<lparr>trace := trace (fanned_out cl s ws ts) @ [Wait (keys_of cl ts)]\<rparr>"
  obtain ksd where k:
    "trace (fold (settle E) arrival c2) = trace c2 @ map Settled ksd"
    "set ksd = {k \<in> set arrival. k < length (tasks c2) \<and> status c2 k = Pending}"
    using fold_settle_trace [of E arrival c2] by blast
  have t2: "trace c2 = trace cl @ CommsInit s ws # map (\<lambda>p. Submit (fst p) (snd p)) (zip (keys_of cl ts) ts)
             @ [Wait (keys_of cl ts)]"
    by (simp add: c2_def fanned_out_def submit_all_trace opened_def keys_of_def)
  have "k \<in> set ksd" if "k \<in> set (keys_of cl ts)" "k \<in> set arrival" for k
    using that k(2)
    by (auto simp add: c2_def fanned_out_def submit_all_tasks submit_all_status opened_def keys_of_def)
  then have "set (keys_of cl ts) \<inter> set arrival \<subseteq> set ksd"
    by blast
  moreover have "trace (at_barrier E arrival cl s ws ts) =
           trace cl @ CommsInit s ws # map (\<lambda>p. Submit (fst p) (snd p)) (zip (keys_of cl ts) ts)
             @ Wait (keys_of cl ts) # map Settled ksd"
    using k(1) t2 by (simp add: at_barrier_def c2_def [symmetric])
  ultimately show ?thesis by blast
qed

lemma at_barrier_tasks: "tasks (at_barrier E arrival cl s ws ts) = tasks cl @ ts"
  by (simp add: at_barrier_def fold_settle_tasks fanned_out_def submit_all_tasks opened_def)

lemma at_barrier_sessions: "sessions (at_barrier E arrival cl s ws ts) = sessions cl @ [(s, ws)]"
  by (simp add: at_barrier_def fold_settle_sessions fanned_out_def submit_all_sessions opened_def)

text \<open>How the final cluster of a dispatched fit round relates to the cluster at the barrier.\<close>

lemma fit_final_cluster:
  assumes c: "create X sw = Inr data" and i: "comms_init_error E s (workers data) = None"
    and f: "fit E s arrival self cl X sw = (self1, cl1, out)"
  shows "tasks cl1 = tasks cl @ fit_tasks self s data \<and>
    (\<exists>rest. trace cl1 = trace (at_barrier E arrival cl s (workers data) (fit_tasks self s data)) @ rest \<and>
       (rest = [] \<and> out = Blocked \<and> \<not> set (keys_of cl (fit_tasks self s data)) \<subseteq> set arrival
        \<or> set (keys_of cl (fit_tasks self s data)) \<subseteq> set arrival \<and> out \<noteq> Blocked \<and>
          (\<exists>fin. rest = map InspectException (keys_of cl (fit_tasks self s data)) @ fin \<and>
                 set fin \<subseteq> {CommsDestroy s, InspectResult (length (tasks cl))})))"
  using f run_task_settled [of E "hd (fit_tasks self s data)"]
  unfolding fit_unfold [OF c i]
  by (auto simp add: inspected_def comms_destroy_def result_def at_barrier_tasks
      split: if_splits list.splits status.splits)

text \<open>
  The session over a fit round: when the round ends with the aggregated error the session
  stays enrolled and \<open>destroy\<close> was never called; when fit returns, \<open>destroy\<close> was
  called once and the session is gone.
\<close>

lemma fit_failure_never_closes_session:
  assumes c: "create X sw = Inr data" and i: "comms_init_error E s (workers data) = None"
    and f: "fit E s arrival self cl X sw = (self1, cl1, out)"
    and a: "set (keys_of cl (fit_tasks self s data)) \<subseteq> set arrival"
    and e: "failures E self s data \<noteq> []"
  shows "sessions cl1 = sessions cl @ [(s, workers data)] \<and>
         count_list (appended cl cl1) (CommsDestroy s) = 0"
proof -
  have cl1: "cl1 = inspected E arrival cl s (workers data) (fit_tasks self s data)"
    using f a e unfolding fit_unfold [OF c i] by simp
  obtain ksd where k: "trace (at_barrier E arrival cl s (workers data) (fit_tasks self s data)) =
           trace cl @ CommsInit s (workers data) #
             map (\<lambda>p. Submit (fst p) (snd p))
               (zip (keys_of cl (fit_tasks self s data)) (fit_tasks self s data))
             @ Wait (keys_of cl (fit_tasks self s data)) # map Settled ksd"
    using at_barrier_trace [of E arrival cl s "workers data" "fit_tasks self s data"] by blast
  show ?thesis
    unfolding cl1 appended_def
    by (auto simp add: inspected_def at_barrier_sessions k count_list_0_iff)
qed

lemma fit_success_closes_session_once:
  assumes c: "create X sw = Inr data" and i: "comms_init_error E s (workers data) = None"
    and f: "fit E s arrival self cl X sw = (self1, cl1, Returned ())"
  shows "sessions cl1 = filter (\<lambda>p. fst p \<noteq> s) (sessions cl) \<and>
         count_list (appended cl cl1) (CommsDestroy s) = 1"
proof -
  define ts where "ts = fit_tasks self s data"
  have cl1: "cl1 = fst (result (comms_destroy (inspected E arrival cl s (workers data) ts) s)
      (length (tasks cl)))"
    using f unfolding fit_unfold [OF c i] ts_def [symmetric]
    by (auto split: if_splits list.splits status.splits)
  obtain ksd where k: "trace (at_barrier E arrival cl s (workers data) ts) =
           trace cl @ CommsInit s (workers data) #
             map (\<lambda>p. Submit (fst p) (snd p)) (zip (keys_of cl ts) ts)
             @ Wait (keys_of cl ts) # map Settled ksd"
    using at_barrier_trace [of E arrival cl s "workers data" ts] by blast
  have "count_list (map (\<lambda>p. Submit (fst p) (snd p)) (zip (keys_of cl ts) ts)) (CommsDestroy s) = 0"
    "count_list (map Settled ksd) (CommsDestroy s) = 0"
    "count_list (map InspectException (keys_of cl ts)) (CommsDestroy s) = 0"
    by (auto simp add: count_list_0_iff)
  then show ?thesis
    unfolding cl1 appended_def
    by (simp add: result_def comms_destroy_def inspected_def at_barrier_sessions k)
qed

section \<open>The data handler\<close>

lemma set_owners: "set (owners ws) = set ws"
  by (simp add: owners_def)

lemma distinct_owners: "distinct (owners ws)"
  by (simp add: owners_def)

lemma shards_on_nonempty: "shards_on w ps \<noteq> [] \<longleftrightarrow> w \<in> fst ` set ps"
  by (auto simp add: shards_on_def filter_empty_conv)

lemma create_handler:
  assumes "create X sw = Inr data"
  shows "workers data = owners (map fst (partitions X))"
    and "map fst (worker_to_parts data) = workers data"
    and "datatype_of data = kind X"
    and "multiple data = (sw \<noteq> None)"
  using assms by (auto simp add: create_def comp_def split: option.splits if_splits)

lemma aligned_lengths:
  assumes "aligned xs ws" "w \<in> fst ` set xs"
  shows "length (shards_on w xs) = length (shards_on w ws)"
proof -
  have "w \<in> set (owners (map fst xs @ map fst ws))"
    using assms(2) by (simp add: set_owners)
  then have "aligned_on xs ws w"
    using assms(1) by (simp add: aligned_def list_all_iff)
  then show ?thesis
    by (simp add: aligned_on_def list_all2_lengthD)
qed

lemma create_parts:
  assumes c: "create X sw = Inr data" and m: "(w, ps) \<in> set (worker_to_parts data)"
  shows "feature_blocks ps = shards_on w (partitions X) \<and>
         weight_blocks ps = (case sw of None \<Rightarrow> [] | Some W \<Rightarrow> shards_on w (partitions W))"
proof (cases sw)
  case None
  then show ?thesis
    using c m by (auto simp add: create_def)
next
  case (Some W)
  have al: "aligned (partitions X) (partitions W)"
    using c Some by (simp add: create_def split: if_splits)
  then have d: "worker_to_parts data =
      map (\<lambda>w. (w, XWs (zip (shards_on w (partitions X)) (shards_on w (partitions W)))))
          (owners (map fst (partitions X)))"
    using c Some by (auto simp add: create_def)
  have w: "w \<in> fst ` set (partitions X)"
    and ps: "ps = XWs (zip (shards_on w (partitions X)) (shards_on w (partitions W)))"
    using m unfolding d by (auto simp add: set_owners)
  have "length (shards_on w (partitions X)) = length (shards_on w (partitions W))"
    using al w by (rule aligned_lengths)
  then show ?thesis
    by (simp add: ps Some)
qed

lemma create_func_fit:
  assumes c: "create X sw = Inr data" and m: "(w, ps) \<in> set (worker_to_parts data)"
  shows "func_fit E w s ps dt (multiple data) kw =
           KMeansMG_fit E (worker_state E w s) dt kw
             (concatenate (shards_on w (partitions X)))
             (case sw of None \<Rightarrow> None
              | Some W \<Rightarrow> Some (concatenate (shards_on w (partitions W))))"
proof (cases sw)
  case None
  then show ?thesis
    using c m by (auto simp add: create_def func_fit_def)
next
  case (Some W)
  have al: "aligned (partitions X) (partitions W)"
    using c Some by (simp add: create_def split: if_splits)
  then have d: "worker_to_parts data =
      map (\<lambda>w. (w, XWs (zip (shards_on w (partitions X)) (shards_on w (partitions W)))))
          (owners (map fst (partitions X)))" and mu: "multiple data"
    using c Some by (auto simp add: create_def)
  have w: "w \<in> fst ` set (partitions X)"
    and ps: "ps = XWs (zip (shards_on w (partitions X)) (shards_on w (partitions W)))"
    using m unfolding d by (auto simp add: set_owners)
  have "length (shards_on w (partitions X)) = length (shards_on w (partitions W))"
    using al w by (rule aligned_lengths)
  then show ?thesis
    by (simp add: ps Some mu func_fit_def)
qed

lemma set_map_filter: "set (List.map_filter f xs) = {y. \<exists>x \<in> set xs. f x = Some y}"
  by (force simp add: List.map_filter_def image_iff)

lemma map_filter_empty: "List.map_filter f xs = [] \<longleftrightarrow> (\<forall>x \<in> set xs. f x = None)"
  by (simp add: List.map_filter_def filter_empty_conv)

lemma cause_of_Some: "cause_of E t = Some e \<longleftrightarrow> run_task E t = Erred e"
  by (simp add: cause_of_def split: status.splits)

lemma cause_of_None: "cause_of E t = None \<longleftrightarrow> (\<exists>m. run_task E t = Finished m)"
  using run_task_settled [of E t] by (simp add: cause_of_def split: status.splits)

text \<open>The sessions enrolled when a dispatched fit round has ended.\<close>

lemma head_task_finished:
  assumes "failures E self s data = []" "fit_tasks self s data = t # ts1"
  shows "\<exists>m. run_task E t = Finished m"
proof -
  have "\<forall>x \<in> set (fit_tasks self s data). cause_of E x = None"
    using assms(1) unfolding failures_def by (simp only: map_filter_empty)
  then have "cause_of E t = None"
    using assms(2) by simp
  then show ?thesis
    by (simp only: cause_of_None)
qed

lemma fit_final_sessions:
  assumes c: "create X sw = Inr data" and i: "comms_init_error E s (workers data) = None"
    and f: "fit E s arrival self cl X sw = (self1, cl1, out)"
  shows "(out = Returned () \<or> out = Raised IndexError \<longrightarrow>
            sessions cl1 = filter (\<lambda>p. fst p \<noteq> s) (sessions cl)) \<and>
         (out \<noteq> Returned () \<and> out \<noteq> Raised IndexError \<longrightarrow>
            sessions cl1 = sessions cl @ [(s, workers data)])"
proof -
  define ts where "ts = fit_tasks self s data"
  have b: "sessions (at_barrier E arrival cl s (workers data) ts) = sessions cl @ [(s, workers data)]"
    by (rule at_barrier_sessions)
  show ?thesis
  proof (cases "set (keys_of cl ts) \<subseteq> set arrival")
    case False
    then show ?thesis
      using f b unfolding fit_unfold [OF c i] ts_def [symmetric] by auto
  next
    case True
    show ?thesis
    proof (cases "failures E self s data = []")
      case False
      then show ?thesis
        using f b True unfolding fit_unfold [OF c i] ts_def [symmetric]
        by (auto simp add: inspected_def)
    next
      case noerr: True
      show ?thesis
      proof (cases ts)
        case Nil
        then show ?thesis
          using f b True noerr unfolding fit_unfold [OF c i] ts_def [symmetric]
          by (auto simp add: inspected_def comms_destroy_def)
      next
        case (Cons t ts1)
        then obtain m where "run_task E t = Finished m"
          using head_task_finished [OF noerr] unfolding ts_def by blast
        then show ?thesis
          using f b True noerr Cons unfolding fit_unfold [OF c i] ts_def [symmetric]
          by (auto simp add: inspected_def comms_destroy_def result_def)
      qed
    qed
  qed
qed

section \<open>Running the definitions on the small cluster\<close>

lemma create_X0: "create X0 None = Inr data0"
  by (simp add: create_def X0_def data0_def owners_def shards_on_def)

lemma comms_ok: "comms_init_error (engine_failing_on bad) s ws = None"
  by (simp add: engine_failing_on_def)

lemma fit_triple: "fit E s a self cl X sw =
    (fst (fit E s a self cl X sw), fst (snd (fit E s a self cl X sw)), snd (snd (fit E s a self cl X sw)))"
  by simp

lemma keys0: "set (keys_of cl0 (fit_tasks self s data0)) \<subseteq> set [1, 0]"
  by (auto simp add: keys_of_def cl0_def fit_tasks_def data0_def)

lemmas run_defs = fit_def create_def owners_def shards_on_def comms_init_def comms_destroy_def
  submit_def run_task_def func_fit_def settle_def wait_def exception_of_def
  raise_exception_from_futures_def result_def fit_tasks_def concatenate_def
  engine_failing_on_def cl0_def self0_def X0_def List.map_filter_def

section \<open>Properties of the orchestration\<close>

text \<open>
  C1. A fit round whose tasks fail does not close its session. With two workers of which
  \<open>w1\<close> fails, \<open>raise_exception_from_futures\<close> raises before \<open>comms.destroy()\<close> is
  reached: the call ends with the aggregated error, the session \<open>s1\<close> is still enrolled
  and the trace holds no \<open>CommsDestroy\<close>.
\<close>

theorem fit_failure_leaves_session_open:
  "(case fit (engine_failing_on [''w1'']) ''s1'' [1, 0] self0 cl0 X0 None of
      (self1, cl1, out) \<Rightarrow>
        out = Raised (DistributedFitError [WorkerError ''w1'']) \<and>
        sessions cl1 = [(''s1'', [''w0'', ''w1''])] \<and>
        count_list (trace cl1) (CommsDestroy ''s1'') = 0 \<and>
        count_list (trace cl1) (CommsInit ''s1'' [''w0'', ''w1'']) = 1)"
  by (simp add: fit_def create_def owners_def shards_on_def comms_init_def submit_def
      run_task_def func_fit_def settle_def wait_def exception_of_def
      raise_exception_from_futures_def fit_tasks_def concatenate_def engine_failing_on_def
      cl0_def self0_def X0_def List.map_filter_def)

text \<open>
  C2. When every future settles and at least one task failed, fit raises one
  \<open>DistributedFitError\<close> that wraps the causes of all failed tasks, in assignment
  order; and fit returns normally only when every task finished with a model.
\<close>

theorem fit_raises_aggregated_error:
  assumes c: "create X sw = Inr data" and i: "comms_init_error E s (workers data) = None"
    and f: "fit E s arrival self cl X sw = (self1, cl1, out)"
    and a: "set (keys_of cl (fit_tasks self s data)) \<subseteq> set arrival"
  shows "set (failures E self s data) =
           {e. \<exists>t \<in> set (fit_tasks self s data). run_task E t = Erred e} \<and>
         (failures E self s data \<noteq> [] \<longrightarrow>
            out = Raised (DistributedFitError (failures E self s data))) \<and>
         (out = Returned () \<longrightarrow>
            (\<forall>t \<in> set (fit_tasks self s data). \<exists>m. run_task E t = Finished m))"
proof -
  have 1: "set (failures E self s data) =
           {e. \<exists>t \<in> set (fit_tasks self s data). run_task E t = Erred e}"
    by (simp add: failures_def set_map_filter cause_of_Some)
  have 2: "out = Raised (DistributedFitError (failures E self s data))"
    if "failures E self s data \<noteq> []"
    using f a that unfolding fit_unfold [OF c i] by simp
  have 3: "\<forall>t \<in> set (fit_tasks self s data). \<exists>m. run_task E t = Finished m"
    if "out = Returned ()"
  proof -
    have "failures E self s data = []"
      using 2 that by auto
    then show ?thesis
      by (simp add: failures_def map_filter_empty cause_of_None)
  qed
  show ?thesis
    using 1 2 3 by blast
qed

theorem fit_raises_aggregated_error_witness:
  "create X0 None = Inr data0 \<and>
   comms_init_error (engine_failing_on [''w0'', ''w1'']) ''s1'' (workers data0) = None \<and>
   set (keys_of cl0 (fit_tasks self0 ''s1'' data0)) \<subseteq> set [1, 0] \<and>
   failures (engine_failing_on [''w0'', ''w1'']) self0 ''s1'' data0 =
     [WorkerError ''w0'', WorkerError ''w1''] \<and>
   snd (snd (fit (engine_failing_on [''w0'', ''w1'']) ''s1'' [1, 0] self0 cl0 X0 None)) =
     Raised (DistributedFitError [WorkerError ''w0'', WorkerError ''w1''])"
proof -
  define E where "E = engine_failing_on [''w0'', ''w1'']"
  have i: "comms_init_error E ''s1'' (workers data0) = None"
    unfolding E_def by (rule comms_ok)
  have f: "fit E ''s1'' [1, 0] self0 cl0 X0 None =
      (fst (fit E ''s1'' [1, 0] self0 cl0 X0 None),
       fst (snd (fit E ''s1'' [1, 0] self0 cl0 X0 None)),
       snd (snd (fit E ''s1'' [1, 0] self0 cl0 X0 None)))"
    by (rule fit_triple)
  have a: "set (keys_of cl0 (fit_tasks self0 ''s1'' data0)) \<subseteq> set [1, 0]"
    by (rule keys0)
  have fl: "failures E self0 ''s1'' data0 = [WorkerError ''w0'', WorkerError ''w1'']"
    by (simp add: E_def failures_def fit_tasks_def data0_def cause_of_def run_task_def
        func_fit_def engine_failing_on_def List.map_filter_def)
  show ?thesis
    using fit_raises_aggregated_error [OF create_X0 i f a] create_X0 i a fl
    unfolding E_def by simp
qed

text \<open>
  C3. When some task of the round fails (the first worker's included), fit does not
  return normally, and \<open>local_model\<close> and \<open>cluster_centers_\<close> of the estimator are
  what they were before the call.
\<close>

theorem failing_fit_publishes_no_model:
  assumes c: "create X sw = Inr data"
    and f: "fit E s arrival self cl X sw = (self1, cl1, out)"
    and e: "failures E self s data \<noteq> []"
  shows "out \<noteq> Returned () \<and> local_model self1 = local_model self \<and>
         cluster_centers_attr self1 = cluster_centers_attr self"
proof (cases "comms_init_error E s (workers data)")
  case (Some err)
  show ?thesis
    using f unfolding fit_comms_fails [OF c Some] by auto
next
  case None
  show ?thesis
    using f e unfolding fit_unfold [OF c None] by (auto split: if_splits)
qed

theorem failing_fit_publishes_no_model_witness:
  "create X0 None = Inr data0 \<and>
   failures (engine_failing_on [''w0'']) fitted0 ''s1'' data0 = [WorkerError ''w0''] \<and>
   snd (snd (fit (engine_failing_on [''w0'']) ''s1'' [0, 1] fitted0 cl0 X0 None)) \<noteq> Returned () \<and>
   local_model (fst (fit (engine_failing_on [''w0'']) ''s1'' [0, 1] fitted0 cl0 X0 None)) =
     Some (Model [[0, 0]]) \<and>
   cluster_centers_attr (fst (fit (engine_failing_on [''w0'']) ''s1'' [0, 1] fitted0 cl0 X0 None)) =
     Some [[0, 0]]"
proof -
  define E where "E = engine_failing_on [''w0'']"
  have f: "fit E ''s1'' [0, 1] fitted0 cl0 X0 None =
      (fst (fit E ''s1'' [0, 1] fitted0 cl0 X0 None),
       fst (snd (fit E ''s1'' [0, 1] fitted0 cl0 X0 None)),
       snd (snd (fit E ''s1'' [0, 1] fitted0 cl0 X0 None)))"
    by (rule fit_triple)
  have fl: "failures E fitted0 ''s1'' data0 = [WorkerError ''w0'']"
    by (simp add: E_def failures_def fit_tasks_def data0_def cause_of_def run_task_def
        func_fit_def engine_failing_on_def List.map_filter_def)
  then have e: "failures E fitted0 ''s1'' data0 \<noteq> []"
    by simp
  show ?thesis
    using failing_fit_publishes_no_model [OF create_X0 f e] create_X0 fl
    unfolding E_def by (simp add: fitted0_def)
qed

text \<open>
  C4. What a dispatched fit round appends to the trace: the session is opened, then one
  \<open>Submit\<close> per worker of the assignment, then a single \<open>Wait\<close> on all of their
  futures, then the futures settle; nothing is submitted afterwards, and a result is
  inspected (or the session closed) only after every future of the round has settled.
  When the barrier is never reached nothing is inspected.
\<close>

theorem fit_fans_out_before_barrier:
  assumes c: "create X sw = Inr data" and i: "comms_init_error E s (workers data) = None"
    and f: "fit E s arrival self cl X sw = (self1, cl1, out)"
  shows "\<exists>settled rest.
      appended cl cl1 =
        CommsInit s (workers data) #
        map (\<lambda>p. Submit (fst p) (snd p))
            (zip (keys_of cl (fit_tasks self s data)) (fit_tasks self s data)) @
        Wait (keys_of cl (fit_tasks self s data)) # map Settled settled @ rest \<and>
      length (keys_of cl (fit_tasks self s data)) = length (worker_to_parts data) \<and>
      length (fit_tasks self s data) = length (worker_to_parts data) \<and>
      (\<forall>e \<in> set rest. \<not> is_submit e \<and> (is_inspection e \<or> e = CommsDestroy s)) \<and>
      (rest \<noteq> [] \<longrightarrow> set (keys_of cl (fit_tasks self s data)) \<subseteq> set settled) \<and>
      (out = Blocked \<longrightarrow> rest = [])"
proof -
  define ts where "ts = fit_tasks self s data"
  obtain ksd where k: "trace (at_barrier E arrival cl s (workers data) ts) =
      trace cl @ CommsInit s (workers data) #
        map (\<lambda>p. Submit (fst p) (snd p)) (zip (keys_of cl ts) ts)
        @ Wait (keys_of cl ts) # map Settled ksd"
    and kk: "set (keys_of cl ts) \<inter> set arrival \<subseteq> set ksd"
    using at_barrier_trace [of E arrival cl s "workers data" ts] by blast
  obtain rest where r: "trace cl1 = trace (at_barrier E arrival cl s (workers data) ts) @ rest"
    and rr: "rest = [] \<and> out = Blocked \<and> \<not> set (keys_of cl ts) \<subseteq> set arrival \<or>
        set (keys_of cl ts) \<subseteq> set arrival \<and> out \<noteq> Blocked \<and>
        (\<exists>fin. rest = map InspectException (keys_of cl ts) @ fin \<and>
           set fin \<subseteq> {CommsDestroy s, InspectResult (length (tasks cl))})"
    using fit_final_cluster [OF c i f] unfolding ts_def by blast
  have a: "appended cl cl1 = CommsInit s (workers data) #
        map (\<lambda>p. Submit (fst p) (snd p)) (zip (keys_of cl ts) ts) @
        Wait (keys_of cl ts) # map Settled ksd @ rest"
    by (simp add: appended_def r k)
  have l: "length (keys_of cl ts) = length (worker_to_parts data)"
      "length ts = length (worker_to_parts data)"
    by (simp_all add: keys_of_def ts_def fit_tasks_def)
  have e: "\<forall>e \<in> set rest. \<not> is_submit e \<and> (is_inspection e \<or> e = CommsDestroy s)"
  proof
    fix e assume "e \<in> set rest"
    with rr obtain fin where "e \<in> InspectException ` set (keys_of cl ts) \<union> set fin"
      and "set fin \<subseteq> {CommsDestroy s, InspectResult (length (tasks cl))}"
      by auto
    then have "(\<exists>k. e = InspectException k) \<or> e = CommsDestroy s \<or>
        e = InspectResult (length (tasks cl))"
      by blast
    then show "\<not> is_submit e \<and> (is_inspection e \<or> e = CommsDestroy s)"
      by auto
  qed
  have s: "rest \<noteq> [] \<longrightarrow> set (keys_of cl ts) \<subseteq> set ksd"
    using rr kk by auto
  have b: "out = Blocked \<longrightarrow> rest = []"
    using rr by auto
  show ?thesis
    unfolding ts_def [symmetric] using a l e s b by blast
qed

theorem fit_fans_out_before_barrier_witness:
  "create X0 None = Inr data0 \<and>
   comms_init_error (engine_failing_on []) ''s1'' (workers data0) = None \<and>
   (\<exists>settled rest.
      appended cl0 (fst (snd (fit (engine_failing_on []) ''s1'' [1, 0] self0 cl0 X0 None))) =
        CommsInit ''s1'' (workers data0) #
        map (\<lambda>p. Submit (fst p) (snd p))
            (zip (keys_of cl0 (fit_tasks self0 ''s1'' data0)) (fit_tasks self0 ''s1'' data0)) @
        Wait (keys_of cl0 (fit_tasks self0 ''s1'' data0)) # map Settled settled @ rest \<and>
      length (keys_of cl0 (fit_tasks self0 ''s1'' data0)) = length (worker_to_parts data0) \<and>
      length (fit_tasks self0 ''s1'' data0) = length (worker_to_parts data0) \<and>
      (\<forall>e \<in> set rest. \<not> is_submit e \<and> (is_inspection e \<or> e = CommsDestroy ''s1'')) \<and>
      (rest \<noteq> [] \<longrightarrow> set (keys_of cl0 (fit_tasks self0 ''s1'' data0)) \<subseteq> set settled) \<and>
      (snd (snd (fit (engine_failing_on []) ''s1'' [1, 0] self0 cl0 X0 None)) = Blocked \<longrightarrow> rest = []))"
  by (intro conjI create_X0 comms_ok
      fit_fans_out_before_barrier [OF create_X0 comms_ok fit_triple])

text \<open>
  C5. The tasks a fit round submits are, in assignment order, one per worker of the
  assignment, each pinned to that worker and carrying the session identifier, that
  worker's entry of \<open>worker_to_parts\<close>, the output type, the weights flag and the
  hyperparameters; the target workers are distinct; the blocks a task receives are the
  shards resident on its target; and \<open>_func_fit\<close> hands the engine the concatenation of
  exactly these shards (and of that worker's weight shards, when weights were given).
\<close>

theorem fit_one_task_per_owning_worker:
  assumes c: "create X sw = Inr data" and i: "comms_init_error E s (workers data) = None"
    and f: "fit E s arrival self cl X sw = (self1, cl1, out)"
  shows "drop (length (tasks cl)) (tasks cl1) =
           map (\<lambda>wf. \<lparr>target = fst wf, sessionId = s, objs = snd wf,
                      out_type = datatype_of data, has_weights = multiple data,
                      hyper = kwargs self\<rparr>) (worker_to_parts data) \<and>
         map target (drop (length (tasks cl)) (tasks cl1)) = workers data \<and>
         distinct (workers data) \<and>
         (\<forall>t \<in> set (drop (length (tasks cl)) (tasks cl1)).
            feature_blocks (objs t) = shards_on (target t) (partitions X) \<and>
            weight_blocks (objs t) =
              (case sw of None \<Rightarrow> [] | Some W \<Rightarrow> shards_on (target t) (partitions W)) \<and>
            func_fit E (target t) (sessionId t) (objs t) (out_type t) (has_weights t) (hyper t) =
              KMeansMG_fit E (worker_state E (target t) s) (datatype_of data) (kwargs self)
                (concatenate (shards_on (target t) (partitions X)))
                (case sw of None \<Rightarrow> None
                 | Some W \<Rightarrow> Some (concatenate (shards_on (target t) (partitions W)))))"
proof -
  have t: "drop (length (tasks cl)) (tasks cl1) = fit_tasks self s data"
    using fit_final_cluster [OF c i f] by simp
  have "map target (fit_tasks self s data) = workers data"
    using create_handler(2) [OF c] by (simp add: fit_tasks_def comp_def)
  moreover have "distinct (workers data)"
    using create_handler(1) [OF c] by (simp add: distinct_owners)
  moreover have "feature_blocks (objs t) = shards_on (target t) (partitions X) \<and>
            weight_blocks (objs t) =
              (case sw of None \<Rightarrow> [] | Some W \<Rightarrow> shards_on (target t) (partitions W)) \<and>
            func_fit E (target t) (sessionId t) (objs t) (out_type t) (has_weights t) (hyper t) =
              KMeansMG_fit E (worker_state E (target t) s) (datatype_of data) (kwargs self)
                (concatenate (shards_on (target t) (partitions X)))
                (case sw of None \<Rightarrow> None
                 | Some W \<Rightarrow> Some (concatenate (shards_on (target t) (partitions W))))"
    if "t \<in> set (fit_tasks self s data)" for t
  proof -
    from that obtain w ps where m: "(w, ps) \<in> set (worker_to_parts data)"
      and t: "target t = w" "objs t = ps" "sessionId t = s" "out_type t = datatype_of data"
        "has_weights t = multiple data" "hyper t = kwargs self"
      by (auto simp add: fit_tasks_def)
    show ?thesis
      using create_parts [OF c m] create_func_fit [OF c m] unfolding t by simp
  qed
  ultimately show ?thesis
    unfolding t by (simp add: fit_tasks_def)
qed

theorem fit_one_task_per_owning_worker_witness:
  "create X0 None = Inr data0 \<and>
   comms_init_error (engine_failing_on []) ''s1'' (workers data0) = None \<and>
   map target (tasks (fst (snd (fit (engine_failing_on []) ''s1'' [1, 0] self0 cl0 X0 None)))) =
     [''w0'', ''w1''] \<and>
   map objs (tasks (fst (snd (fit (engine_failing_on []) ''s1'' [1, 0] self0 cl0 X0 None)))) =
     [Xs [[[0, 0], [2, 0]], [[1, 1]]], Xs [[[3, 4]]]]"
proof -
  define E where "E = engine_failing_on []"
  have i: "comms_init_error E ''s1'' (workers data0) = None"
    unfolding E_def by (rule comms_ok)
  have f: "fit E ''s1'' [1, 0] self0 cl0 X0 None =
      (fst (fit E ''s1'' [1, 0] self0 cl0 X0 None),
       fst (snd (fit E ''s1'' [1, 0] self0 cl0 X0 None)),
       snd (snd (fit E ''s1'' [1, 0] self0 cl0 X0 None)))"
    by (rule fit_triple)
  have "drop (length (tasks cl0)) (tasks (fst (snd (fit E ''s1'' [1, 0] self0 cl0 X0 None)))) =
           map (\<lambda>wf. \<lparr>target = fst wf, sessionId = ''s1'', objs = snd wf,
                      out_type = datatype_of data0, has_weights = multiple data0,
                      hyper = kwargs self0\<rparr>) (worker_to_parts data0)"
    using fit_one_task_per_owning_worker [OF create_X0 i f] by blast
  then have "tasks (fst (snd (fit E ''s1'' [1, 0] self0 cl0 X0 None))) =
           map (\<lambda>wf. \<lparr>target = fst wf, sessionId = ''s1'', objs = snd wf,
                      out_type = datatype_of data0, has_weights = multiple data0,
                      hyper = kwargs self0\<rparr>) (worker_to_parts data0)"
    by (simp add: cl0_def)
  then show ?thesis
    using create_X0 i unfolding E_def by (simp add: data0_def)
qed

text \<open>
  C6. The model fit publishes is the one returned by the task of the first worker in
  assignment order, whatever the order in which the futures settled: two runs that differ
  only in the arrival order leave the same estimator.
\<close>

theorem fit_selects_first_worker_model:
  assumes f1: "fit E s a1 self cl X sw = (self1, cl1, Returned ())"
    and f2: "fit E s a2 self cl X sw = (self2, cl2, out2)"
    and nb: "out2 \<noteq> Blocked"
  shows "self2 = self1 \<and> out2 = Returned () \<and>
    (\<exists>data w ps rest m.
       create X sw = Inr data \<and> worker_to_parts data = (w, ps) # rest \<and>
       func_fit E w s ps (datatype_of data) (multiple data) (kwargs self) = Inr m \<and>
       local_model self1 = Some m \<and> cluster_centers_attr self1 = Some (model_centers m))"
proof -
  obtain data where c: "create X sw = Inr data"
    using f1 by (cases "create X sw") (simp_all add: fit_create_fails)
  have i: "comms_init_error E s (workers data) = None"
    using f1 c by (cases "comms_init_error E s (workers data)") (simp_all add: fit_comms_fails)
  define ts where "ts = fit_tasks self s data"
  have u1: "failures E self s data = []"
    using f1 unfolding fit_unfold [OF c i] by (auto split: if_splits)
  obtain t ts1 m where t: "ts = t # ts1" and m: "run_task E t = Finished m"
    and s1: "self1 = self\<lparr>datatype_attr := Some (datatype_of data), local_model := Some m,
                          cluster_centers_attr := Some (model_centers m)\<rparr>"
    using f1 unfolding fit_unfold [OF c i] ts_def [symmetric]
    by (auto split: if_splits list.splits status.splits)
  have k2: "set (keys_of cl ts) \<subseteq> set a2"
    using f2 nb unfolding fit_unfold [OF c i] ts_def [symmetric] by (auto split: if_splits)
  have r2: "self2 = self1 \<and> out2 = Returned ()"
    using f2 k2 u1 t m s1 unfolding fit_unfold [OF c i] ts_def [symmetric] by simp
  obtain w ps rest where wp: "worker_to_parts data = (w, ps) # rest"
    and tt: "t = \<lparr>target = w, sessionId = s, objs = ps, out_type = datatype_of data,
                  has_weights = multiple data, hyper = kwargs self\<rparr>"
    using t unfolding ts_def fit_tasks_def by (cases "worker_to_parts data") auto
  have ff: "func_fit E w s ps (datatype_of data) (multiple data) (kwargs self) = Inr m"
    using m unfolding tt by (simp add: run_task_def split: sum.splits)
  show ?thesis
    using r2 c wp ff s1 by auto
qed

theorem fit_selects_first_worker_model_witness:
  "snd (snd (fit (engine_failing_on []) ''s1'' [1, 0] self0 cl0 X0 None)) = Returned () \<and>
   snd (snd (fit (engine_failing_on []) ''s1'' [0, 1] self0 cl0 X0 None)) \<noteq> Blocked \<and>
   fst (fit (engine_failing_on []) ''s1'' [0, 1] self0 cl0 X0 None) =
     fst (fit (engine_failing_on []) ''s1'' [1, 0] self0 cl0 X0 None) \<and>
   trace (fst (snd (fit (engine_failing_on []) ''s1'' [0, 1] self0 cl0 X0 None))) \<noteq>
     trace (fst (snd (fit (engine_failing_on []) ''s1'' [1, 0] self0 cl0 X0 None))) \<and>
   local_model (fst (fit (engine_failing_on []) ''s1'' [1, 0] self0 cl0 X0 None)) =
     Some (Model [[0, 0]])"
proof -
  define E where "E = engine_failing_on []"
  have o1: "snd (snd (fit E ''s1'' [1, 0] self0 cl0 X0 None)) = Returned ()"
    unfolding E_def by (simp add: run_defs)
  have o2: "snd (snd (fit E ''s1'' [0, 1] self0 cl0 X0 None)) \<noteq> Blocked"
    unfolding E_def by (simp add: run_defs)
  have tr: "trace (fst (snd (fit E ''s1'' [0, 1] self0 cl0 X0 None))) \<noteq>
     trace (fst (snd (fit E ''s1'' [1, 0] self0 cl0 X0 None)))"
    unfolding E_def by (simp add: run_defs)
  have m: "local_model (fst (fit E ''s1'' [1, 0] self0 cl0 X0 None)) = Some (Model [[0, 0]])"
    unfolding E_def by (simp add: run_defs)
  have f1: "fit E ''s1'' [1, 0] self0 cl0 X0 None =
      (fst (fit E ''s1'' [1, 0] self0 cl0 X0 None),
       fst (snd (fit E ''s1'' [1, 0] self0 cl0 X0 None)), Returned ())"
    using o1 by (simp add: prod_eq_iff)
  have f2: "fit E ''s1'' [0, 1] self0 cl0 X0 None =
      (fst (fit E ''s1'' [0, 1] self0 cl0 X0 None),
       fst (snd (fit E ''s1'' [0, 1] self0 cl0 X0 None)),
       snd (snd (fit E ''s1'' [0, 1] self0 cl0 X0 None)))"
    by (rule fit_triple)
  have "fst (fit E ''s1'' [0, 1] self0 cl0 X0 None) = fst (fit E ''s1'' [1, 0] self0 cl0 X0 None)"
    using fit_selects_first_worker_model [OF f1 f2 o2] by blast
  then show ?thesis
    using o1 o2 tr m unfolding E_def by blast
qed

text \<open>
  C8. The session of a fit round is opened once, and \<open>comms.init\<close> enrolls it over the
  workers of the handler, which are exactly the workers on which at least one shard of
  the input is resident. The session stays enrolled over these workers until
  \<open>comms.destroy\<close>: it is still there when the round blocks or raises the aggregated
  error, and gone when \<open>destroy\<close> was reached.
\<close>

theorem fit_session_over_shard_owners:
  assumes c: "create X sw = Inr data" and i: "comms_init_error E s (workers data) = None"
    and f: "fit E s arrival self cl X sw = (self1, cl1, out)"
  shows "(\<exists>rest. appended cl cl1 = CommsInit s (workers data) # rest \<and>
           (\<forall>s1 ws. CommsInit s1 ws \<notin> set rest) \<and>
           set (workers data) = {w. shards_on w (partitions X) \<noteq> []} \<and>
           distinct (workers data)) \<and>
         (\<exists>cl2. comms_init E cl s (workers data) = Inr cl2 \<and>
            sessions cl2 = sessions cl @ [(s, workers data)] \<and>
            set (snd (last (sessions cl2))) = {w. shards_on w (partitions X) \<noteq> []}) \<and>
         (out \<noteq> Returned () \<and> out \<noteq> Raised IndexError \<longrightarrow>
            sessions cl1 = sessions cl @ [(s, workers data)]) \<and>
         (out = Returned () \<or> out = Raised IndexError \<longrightarrow>
            sessions cl1 = filter (\<lambda>p. fst p \<noteq> s) (sessions cl))"
proof -
  obtain ksd where k: "trace (at_barrier E arrival cl s (workers data) (fit_tasks self s data)) =
      trace cl @ CommsInit s (workers data) #
        map (\<lambda>p. Submit (fst p) (snd p)) (zip (keys_of cl (fit_tasks self s data)) (fit_tasks self s data))
        @ Wait (keys_of cl (fit_tasks self s data)) # map Settled ksd"
    using at_barrier_trace [of E arrival cl s "workers data" "fit_tasks self s data"] by blast
  obtain rest where r: "trace cl1 = trace (at_barrier E arrival cl s (workers data) (fit_tasks self s data)) @ rest"
    "rest = [] \<or> (\<exists>fin. rest = map InspectException (keys_of cl (fit_tasks self s data)) @ fin \<and>
        set fin \<subseteq> {CommsDestroy s, InspectResult (length (tasks cl))})"
    using fit_final_cluster [OF c i f] by blast
  define tl where "tl = map (\<lambda>p. Submit (fst p) (snd p)) (zip (keys_of cl (fit_tasks self s data)) (fit_tasks self s data))
        @ Wait (keys_of cl (fit_tasks self s data)) # map Settled ksd @ rest"
  have a: "appended cl cl1 = CommsInit s (workers data) # tl"
    by (simp add: appended_def r(1) k tl_def)
  have n: "CommsInit s1 ws \<notin> set tl" for s1 ws
    using r(2) by (auto simp add: tl_def)
  have w: "set (workers data) = {w. shards_on w (partitions X) \<noteq> []}"
    using create_handler(1) [OF c] by (auto simp add: set_owners shards_on_nonempty)
  have d: "distinct (workers data)"
    using create_handler(1) [OF c] by (simp add: distinct_owners)
  have 1: "\<exists>rest. appended cl cl1 = CommsInit s (workers data) # rest \<and>
           (\<forall>s1 ws. CommsInit s1 ws \<notin> set rest) \<and>
           set (workers data) = {w. shards_on w (partitions X) \<noteq> []} \<and>
           distinct (workers data)"
    using a n w d by blast
  have 2: "\<exists>cl2. comms_init E cl s (workers data) = Inr cl2 \<and>
            sessions cl2 = sessions cl @ [(s, workers data)] \<and>
            set (snd (last (sessions cl2))) = {w. shards_on w (partitions X) \<noteq> []}"
    using w by (simp add: comms_init_def i)
  show ?thesis
    using 1 2 fit_final_sessions [OF c i f] by blast
qed

theorem fit_session_over_shard_owners_witness:
  "create X0 None = Inr data0 \<and>
   comms_init_error (engine_failing_on [''w1'']) ''s1'' (workers data0) = None \<and>
   (\<exists>rest. appended cl0 (fst (snd (fit (engine_failing_on [''w1'']) ''s1'' [1, 0] self0 cl0 X0 None))) =
             CommsInit ''s1'' (workers data0) # rest \<and>
           (\<forall>s1 ws. CommsInit s1 ws \<notin> set rest) \<and>
           set (workers data0) = {w. shards_on w (partitions X0) \<noteq> []} \<and>
           distinct (workers data0)) \<and>
   (\<exists>cl2. comms_init (engine_failing_on [''w1'']) cl0 ''s1'' (workers data0) = Inr cl2 \<and>
          sessions cl2 = sessions cl0 @ [(''s1'', workers data0)] \<and>
          set (snd (last (sessions cl2))) = {w. shards_on w (partitions X0) \<noteq> []}) \<and>
   snd (snd (fit (engine_failing_on [''w1'']) ''s1'' [1, 0] self0 cl0 X0 None)) =
     Raised (DistributedFitError [WorkerError ''w1'']) \<and>
   sessions (fst (snd (fit (engine_failing_on [''w1'']) ''s1'' [1, 0] self0 cl0 X0 None))) =
     [(''s1'', [''w0'', ''w1''])] \<and>
   workers data0 = [''w0'', ''w1'']"
proof -
  define E where "E = engine_failing_on [''w1'']"
  have i: "comms_init_error E ''s1'' (workers data0) = None"
    unfolding E_def by (rule comms_ok)
  have f: "fit E ''s1'' [1, 0] self0 cl0 X0 None =
      (fst (fit E ''s1'' [1, 0] self0 cl0 X0 None),
       fst (snd (fit E ''s1'' [1, 0] self0 cl0 X0 None)),
       snd (snd (fit E ''s1'' [1, 0] self0 cl0 X0 None)))"
    by (rule fit_triple)
  have w: "workers data0 = [''w0'', ''w1'']"
    by (simp add: data0_def)
  have o: "snd (snd (fit E ''s1'' [1, 0] self0 cl0 X0 None)) =
      Raised (DistributedFitError [WorkerError ''w1''])"
    unfolding E_def by (simp add: run_defs)
  note t = fit_session_over_shard_owners [OF create_X0 i f]
  have "sessions (fst (snd (fit E ''s1'' [1, 0] self0 cl0 X0 None))) =
      sessions cl0 @ [(''s1'', workers data0)]"
    using t o by simp
  then have s: "sessions (fst (snd (fit E ''s1'' [1, 0] self0 cl0 X0 None))) =
      [(''s1'', [''w0'', ''w1''])]"
    by (simp add: cl0_def w)
  show ?thesis
    using t create_X0 i w o s unfolding E_def by blast
qed

text \<open>
  C9. With sample weights whose shards do not align with the feature shards, fit raises
  \<open>ShardAlignmentError\<close> and leaves the estimator and the cluster as they were: no
  session was opened and no task submitted.
\<close>

theorem fit_misaligned_weights:
  assumes "\<not> aligned (partitions X) (partitions W)"
  shows "fit E s arrival self cl X (Some W) = (self, cl, Raised ShardAlignmentError)"
  using assms by (simp add: fit_def create_def)

theorem fit_misaligned_weights_witness:
  "\<not> aligned (partitions X0) (partitions W1) \<and>
   fit (engine_failing_on []) ''s1'' [1, 0] self0 cl0 X0 (Some W1) =
     (self0, cl0, Raised ShardAlignmentError)"
proof -
  have h: "\<not> aligned (partitions X0) (partitions W1)"
    by (simp add: aligned_def aligned_on_def owners_def shards_on_def X0_def W1_def)
  show ?thesis
    using h fit_misaligned_weights [OF h] by simp
qed

text \<open>
  C10. \<open>fit_predict\<close> does not look at \<open>sample_weight\<close>: it is \<open>fit(X)\<close> without
  weights followed by \<open>predict(X, delayed)\<close> on the fitted estimator.
\<close>

theorem fit_predict_ignores_sample_weight:
  "fit_predict E s arrival self cl X sample_weight delayed =
     fit_predict E s arrival self cl X None delayed \<and>
   fit_predict E s arrival self cl X sample_weight delayed =
     (case fit E s arrival self cl X None of
        (self1, cl1, Returned u) \<Rightarrow>
          (self1, cl1,
           case predict E self1 X delayed of Inl e \<Rightarrow> Raised e | Inr p \<Rightarrow> Returned p)
      | (self1, cl1, Raised e) \<Rightarrow> (self1, cl1, Raised e)
      | (self1, cl1, Blocked) \<Rightarrow> (self1, cl1, Blocked))"
  by (simp add: fit_predict_def)

theorem fit_predict_ignores_sample_weight_witness:
  "fit_predict (engine_failing_on []) ''s1'' [1, 0] self0 cl0 X0 (Some W1) False =
     fit_predict (engine_failing_on []) ''s1'' [1, 0] self0 cl0 X0 None False \<and>
   snd (snd (fit_predict (engine_failing_on []) ''s1'' [1, 0] self0 cl0 X0 (Some W1) False)) =
     Returned (Computed \<lparr>kind = Cupy, partitions = [(''w0'', [0, 0]), (''w1'', [0]), (''w0'', [0])]\<rparr>)"
proof -
  have "snd (snd (fit_predict (engine_failing_on []) ''s1'' [1, 0] self0 cl0 X0 None False)) =
     Returned (Computed \<lparr>kind = Cupy, partitions = [(''w0'', [0, 0]), (''w1'', [0]), (''w0'', [0])]\<rparr>)"
    by (simp add: fit_predict_def predict_def run_parallel_func_def run_defs)
  then show ?thesis
    using fit_predict_ignores_sample_weight
      [of "engine_failing_on []" "''s1''" "[1, 0]" self0 cl0 X0 "Some W1" False]
    by simp
qed

end
